theory Spec2Isabelle
  imports Main
begin

section \<open>Propositional sentences and model checking (Decision\_making.py)\<close>

subsection \<open>Python strings\<close>

text \<open>
  A Python \<open>str\<close> is a sequence of code points. The program builds its strings from the
  names of the symbols and from the connective signs U+00AC, U+2227 and U+2228, so a
  character is a code point of Latin-1 (U+0000 to U+00FF, as a \<open>char\<close>) or one of the two
  signs beyond it. Names with other code points are outside this type.
\<close>

datatype pychar = Latin1 char | LogicalAnd | LogicalOr

type_synonym pystr = "pychar list"

definition str :: "string \<Rightarrow> pystr" where
  "str = map Latin1"

text \<open>
  \<open>str.isalpha()\<close>: the string is not empty and every code point is a letter (Unicode
  general category L). In Latin-1 these are A-Z, a-z, U+00AA, U+00B5, U+00BA, U+00C0-U+00D6,
  U+00D8-U+00F6 and U+00F8-U+00FF; the signs U+2227 and U+2228 are mathematical symbols.
\<close>

fun isalpha_char :: "pychar \<Rightarrow> bool" where
  "isalpha_char (Latin1 c) =
     (let n = (of_char c :: nat) in
        (65 \<le> n \<and> n \<le> 90) \<or> (97 \<le> n \<and> n \<le> 122) \<or> n = 170 \<or> n = 181 \<or> n = 186 \<or>
        (192 \<le> n \<and> n \<le> 214) \<or> (216 \<le> n \<and> n \<le> 246) \<or> (248 \<le> n \<and> n \<le> 255))"
| "isalpha_char LogicalAnd = False"
| "isalpha_char LogicalOr = False"

definition isalpha :: "pystr \<Rightarrow> bool" where
  "isalpha s = (s \<noteq> [] \<and> list_all isalpha_char s)"

text \<open>\<open>sep.join(parts)\<close>.\<close>

fun join :: "pystr \<Rightarrow> pystr list \<Rightarrow> pystr" where
  "join sep [] = []"
| "join sep [x] = x"
| "join sep (x # y # ys) = x @ sep @ join sep (y # ys)"

subsection \<open>Sentences\<close>

text \<open>
  One constructor for each class. \<open>Sentence\<close> is an instance of the base class itself,
  which Python lets a caller create and which passes \<open>validate\<close>; the class defines neither
  \<open>__eq__\<close> nor \<open>__hash__\<close>, so such an object is compared and hashed by its identity, the
  number it carries. The class \<open>Not\<close> is \<open>NotS\<close> here.
\<close>

datatype sentence =
    Sentence nat
  | Symbol pystr
  | NotS sentence
  | And "sentence list"
  | Or "sentence list"
  | Implication sentence sentence

text \<open>
  The exceptions the program raises: \<open>Exception("nothing to evaluate")\<close>,
  \<open>Exception("variable ... not in model")\<close>, \<open>TypeError("must be a logical sentence")\<close>,
  and the \<open>TypeError\<close> of \<open>set.union\<close> called with no argument at all.
\<close>

datatype error =
    NothingToEvaluate
  | VariableNotInModel pystr
  | MustBeLogicalSentence
  | UnionNeedsArgument

fun is_TypeError :: "error \<Rightarrow> bool" where
  "is_TypeError MustBeLogicalSentence = True"
| "is_TypeError UnionNeedsArgument = True"
| "is_TypeError NothingToEvaluate = False"
| "is_TypeError (VariableNotInModel name) = False"

subsection \<open>Construction\<close>

text \<open>
  The constructors take any Python object; \<open>Sentence.validate\<close> raises unless the object
  is an instance of \<open>Sentence\<close>. \<open>And\<close> and \<open>Or\<close> validate their arguments in order, in a
  loop that the first exception leaves.
\<close>

datatype pyobj = SentenceObj sentence | StrObj pystr | IntObj int | NoneObj

fun validate :: "pyobj \<Rightarrow> error + sentence" where
  "validate (SentenceObj s) = Inr s"
| "validate (StrObj v) = Inl MustBeLogicalSentence"
| "validate (IntObj v) = Inl MustBeLogicalSentence"
| "validate NoneObj = Inl MustBeLogicalSentence"

fun validate_each :: "pyobj list \<Rightarrow> error + sentence list" where
  "validate_each [] = Inr []"
| "validate_each (x # xs) =
     (case validate x of
        Inl e \<Rightarrow> Inl e
      | Inr s \<Rightarrow> (case validate_each xs of Inl e \<Rightarrow> Inl e | Inr ss \<Rightarrow> Inr (s # ss)))"

definition Not_init :: "pyobj \<Rightarrow> error + sentence" where
  "Not_init operand =
     (case validate operand of Inl e \<Rightarrow> Inl e | Inr s \<Rightarrow> Inr (NotS s))"

definition And_init :: "pyobj list \<Rightarrow> error + sentence" where
  "And_init conjuncts =
     (case validate_each conjuncts of Inl e \<Rightarrow> Inl e | Inr ss \<Rightarrow> Inr (And ss))"

definition Or_init :: "pyobj list \<Rightarrow> error + sentence" where
  "Or_init disjuncts =
     (case validate_each disjuncts of Inl e \<Rightarrow> Inl e | Inr ss \<Rightarrow> Inr (Or ss))"

definition Implication_init :: "pyobj \<Rightarrow> pyobj \<Rightarrow> error + sentence" where
  "Implication_init antecedent consequent =
     (case validate antecedent of
        Inl e \<Rightarrow> Inl e
      | Inr a \<Rightarrow>
          (case validate consequent of Inl e \<Rightarrow> Inl e | Inr c \<Rightarrow> Inr (Implication a c)))"

fun is_sentence :: "pyobj \<Rightarrow> bool" where
  "is_sentence (SentenceObj s) = True"
| "is_sentence (StrObj v) = False"
| "is_sentence (IntObj v) = False"
| "is_sentence NoneObj = False"

fun the_sentence :: "pyobj \<Rightarrow> sentence" where
  "the_sentence (SentenceObj s) = s"
| "the_sentence (StrObj v) = Sentence 0"
| "the_sentence (IntObj v) = Sentence 0"
| "the_sentence NoneObj = Sentence 0"

subsection \<open>Evaluation\<close>

text \<open>
  A model is a \<open>dict\<close> from names to truth values. \<open>all\<close> and \<open>any\<close> consume their
  generator up to the first deciding element, and \<open>not a or c\<close> evaluates \<open>c\<close> only when
  \<open>a\<close> is true: an exception in a later operand is raised only if that operand is reached.
\<close>

fun evaluate :: "sentence \<Rightarrow> (pystr \<rightharpoonup> bool) \<Rightarrow> error + bool"
  and evaluate_all :: "sentence list \<Rightarrow> (pystr \<rightharpoonup> bool) \<Rightarrow> error + bool"
  and evaluate_any :: "sentence list \<Rightarrow> (pystr \<rightharpoonup> bool) \<Rightarrow> error + bool"
where
  "evaluate (Sentence i) model = Inl NothingToEvaluate"
| "evaluate (Symbol name) model =
     (case model name of None \<Rightarrow> Inl (VariableNotInModel name) | Some v \<Rightarrow> Inr v)"
| "evaluate (NotS operand) model =
     (case evaluate operand model of Inl e \<Rightarrow> Inl e | Inr b \<Rightarrow> Inr (\<not> b))"
| "evaluate (And conjuncts) model = evaluate_all conjuncts model"
| "evaluate (Or disjuncts) model = evaluate_any disjuncts model"
| "evaluate (Implication antecedent consequent) model =
     (case evaluate antecedent model of
        Inl e \<Rightarrow> Inl e
      | Inr a \<Rightarrow> if \<not> a then Inr True else evaluate consequent model)"
| "evaluate_all [] model = Inr True"
| "evaluate_all (c # cs) model =
     (case evaluate c model of
        Inl e \<Rightarrow> Inl e
      | Inr b \<Rightarrow> if b then evaluate_all cs model else Inr False)"
| "evaluate_any [] model = Inr False"
| "evaluate_any (d # ds) model =
     (case evaluate d model of
        Inl e \<Rightarrow> Inl e
      | Inr b \<Rightarrow> if b then Inr True else evaluate_any ds model)"

subsection \<open>Rendering\<close>

fun balanced_loop :: "pystr \<Rightarrow> int \<Rightarrow> bool" where
  "balanced_loop [] count = (count = 0)"
| "balanced_loop (c # cs) count =
     (if c = Latin1 CHR ''('' then balanced_loop cs (count + 1)
      else if c = Latin1 CHR '')'' then
        (if count \<le> 0 then False else balanced_loop cs (count - 1))
      else balanced_loop cs count)"

definition balanced :: "pystr \<Rightarrow> bool" where
  "balanced s = balanced_loop s 0"

text \<open>
  The third test of \<open>parenthesize\<close>: \<open>s[0] == "(" and s[-1] == ")" and balanced(s[1:-1])\<close>,
  reached only when \<open>s\<close> is not empty.
\<close>

definition outer_parenthesized :: "pystr \<Rightarrow> bool" where
  "outer_parenthesized s =
     (s \<noteq> [] \<and> hd s = Latin1 CHR ''('' \<and> last s = Latin1 CHR '')'' \<and> balanced (butlast (tl s)))"

definition parenthesize :: "pystr \<Rightarrow> pystr" where
  "parenthesize s =
     (if s = [] \<or> isalpha s \<or> outer_parenthesized s then s
      else str ''('' @ s @ str '')'')"

definition not_sign :: pystr where
  "not_sign = [Latin1 (CHR 0xAC)]"

definition and_sep :: pystr where
  "and_sep = [Latin1 CHR '' '', LogicalAnd, Latin1 CHR '' '']"

definition or_sep :: pystr where
  "or_sep = [Latin1 CHR '' '', LogicalOr, Latin1 CHR '' '', Latin1 CHR '' '']"

definition implies_sep :: pystr where
  "implies_sep = str '' => ''"

fun formula :: "sentence \<Rightarrow> pystr"
  and formula_each :: "sentence list \<Rightarrow> pystr list"
where
  "formula (Sentence i) = []"
| "formula (Symbol name) = name"
| "formula (NotS operand) = not_sign @ parenthesize (formula operand)"
| "formula (And conjuncts) =
     (case conjuncts of
        [c] \<Rightarrow> formula c
      | _ \<Rightarrow> join and_sep (formula_each conjuncts))"
| "formula (Or disjuncts) =
     (case disjuncts of
        [d] \<Rightarrow> formula d
      | _ \<Rightarrow> join or_sep (formula_each disjuncts))"
| "formula (Implication antecedent consequent) =
     parenthesize (formula antecedent) @ implies_sep @ parenthesize (formula consequent)"
| "formula_each [] = []"
| "formula_each (c # cs) = parenthesize (formula c) # formula_each cs"

subsection \<open>Symbols\<close>

text \<open>
  \<open>set.union(*sets)\<close>: the first set is the receiver, the others are its arguments; with
  an empty list there is no receiver and the call raises \<open>TypeError\<close>. The list
  comprehension computes the children's sets in order and stops at the first exception.
\<close>

fun set_union :: "pystr set list \<Rightarrow> error + pystr set" where
  "set_union [] = Inl UnionNeedsArgument"
| "set_union (s # others) = Inr (foldl (\<union>) s others)"

fun symbols :: "sentence \<Rightarrow> error + pystr set"
  and symbols_each :: "sentence list \<Rightarrow> error + pystr set list"
where
  "symbols (Sentence i) = Inr {}"
| "symbols (Symbol name) = Inr {name}"
| "symbols (NotS operand) = symbols operand"
| "symbols (And conjuncts) =
     (case symbols_each conjuncts of Inl e \<Rightarrow> Inl e | Inr sets \<Rightarrow> set_union sets)"
| "symbols (Or disjuncts) =
     (case symbols_each disjuncts of Inl e \<Rightarrow> Inl e | Inr sets \<Rightarrow> set_union sets)"
| "symbols (Implication antecedent consequent) =
     (case symbols antecedent of
        Inl e \<Rightarrow> Inl e
      | Inr a \<Rightarrow> (case symbols consequent of Inl e \<Rightarrow> Inl e | Inr c \<Rightarrow> set_union [a, c]))"
| "symbols_each [] = Inr []"
| "symbols_each (c # cs) =
     (case symbols c of
        Inl e \<Rightarrow> Inl e
      | Inr s \<Rightarrow> (case symbols_each cs of Inl e \<Rightarrow> Inl e | Inr ss \<Rightarrow> Inr (s # ss)))"

subsection \<open>Equality and hashing\<close>

text \<open>
  \<open>__eq__\<close> of each class; \<open>eq_list\<close> is the comparison of two Python lists, which are
  equal when they have the same length and equal elements at every index.
\<close>

fun eq :: "sentence \<Rightarrow> sentence \<Rightarrow> bool"
  and eq_list :: "sentence list \<Rightarrow> sentence list \<Rightarrow> bool"
where
  "eq (Sentence i) (Sentence j) = (i = j)"
| "eq (Symbol name) (Symbol name') = (name = name')"
| "eq (NotS operand) (NotS operand') = eq operand operand'"
| "eq (And conjuncts) (And conjuncts') = eq_list conjuncts conjuncts'"
| "eq (Or disjuncts) (Or disjuncts') = eq_list disjuncts disjuncts'"
| "eq (Implication a c) (Implication a' c') = (eq a a' \<and> eq c c')"
| "eq _ _ = False"
| "eq_list [] [] = True"
| "eq_list (x # xs) (y # ys) = (eq x y \<and> eq_list xs ys)"
| "eq_list _ _ = False"

text \<open>
  The built-in \<open>hash\<close> of a string, of an integer, of a tuple (computed from the hashes of
  its items) and of an object without \<open>__hash__\<close> (computed from its identity) are
  parameters: they belong to the interpreter, and the string hash changes from one process
  to the next.
\<close>

record pyhash =
  hash_str :: "pystr \<Rightarrow> int"
  hash_int :: "int \<Rightarrow> int"
  hash_tuple :: "int list \<Rightarrow> int"
  hash_object :: "nat \<Rightarrow> int"

fun hash :: "pyhash \<Rightarrow> sentence \<Rightarrow> int"
  and hash_each :: "pyhash \<Rightarrow> sentence list \<Rightarrow> int list"
where
  "hash H (Sentence i) = hash_object H i"
| "hash H (Symbol name) = hash_tuple H [hash_str H (str ''symbol''), hash_str H name]"
| "hash H (NotS operand) =
     hash_tuple H [hash_str H (str ''not''), hash_int H (hash H operand)]"
| "hash H (And conjuncts) =
     hash_tuple H [hash_str H (str ''and''), hash_tuple H (map (hash_int H) (hash_each H conjuncts))]"
| "hash H (Or disjuncts) =
     hash_tuple H [hash_str H (str ''or''), hash_tuple H (map (hash_int H) (hash_each H disjuncts))]"
| "hash H (Implication a c) =
     hash_tuple H [hash_str H (str ''implies''), hash_int H (hash H a), hash_int H (hash H c)]"
| "hash_each H [] = []"
| "hash_each H (c # cs) = hash H c # hash_each H cs"

subsection \<open>Model checking\<close>

text \<open>
  \<open>check_all\<close> takes the symbols still to assign as the list in which \<open>set.pop\<close> hands them
  out: the head is the popped symbol, the tail the set \<open>remaining\<close>. \<open>x and y\<close> evaluates
  \<open>y\<close> only when \<open>x\<close> is true.
\<close>

fun check_all :: "sentence \<Rightarrow> sentence \<Rightarrow> pystr list \<Rightarrow> (pystr \<rightharpoonup> bool) \<Rightarrow> error + bool" where
  "check_all knowledge query [] model =
     (case evaluate knowledge model of
        Inl e \<Rightarrow> Inl e
      | Inr k \<Rightarrow> if k then evaluate query model else Inr True)"
| "check_all knowledge query (p # remaining) model =
     (case check_all knowledge query remaining (model(p \<mapsto> True)) of
        Inl e \<Rightarrow> Inl e
      | Inr b \<Rightarrow>
          if b then check_all knowledge query remaining (model(p \<mapsto> False))
          else Inr False)"

text \<open>
  Which element \<open>set.pop\<close> removes depends on the layout of the hash table, so the order in
  which a set is emptied is the parameter \<open>pop_order\<close>.
\<close>

definition model_check ::
  "(pystr set \<Rightarrow> pystr list) \<Rightarrow> sentence \<Rightarrow> sentence \<Rightarrow> error + bool" where
  "model_check pop_order knowledge query =
     (case symbols knowledge of
        Inl e \<Rightarrow> Inl e
      | Inr ks \<Rightarrow>
          (case symbols query of
             Inl e \<Rightarrow> Inl e
           | Inr qs \<Rightarrow>
               (case set_union [ks, qs] of
                  Inl e \<Rightarrow> Inl e
                | Inr syms \<Rightarrow> check_all knowledge query (pop_order syms) Map.empty)))"

text \<open>A pop order that follows a fixed list of names.\<close>

definition pop_in_order :: "pystr list \<Rightarrow> pystr set \<Rightarrow> pystr list" where
  "pop_in_order names S = filter (\<lambda>n. n \<in> S) names"

subsection \<open>The commuting rules\<close>

definition Rain :: sentence where "Rain = Symbol (str ''Rain'')"
definition HeavyTraffic :: sentence where "HeavyTraffic = Symbol (str ''HeavyTraffic'')"
definition EarlyMeeting :: sentence where "EarlyMeeting = Symbol (str ''EarlyMeeting'')"
definition Strike :: sentence where "Strike = Symbol (str ''Strike'')"
definition Appointment :: sentence where "Appointment = Symbol (str ''Appointment'')"
definition RoadConstruction :: sentence where
  "RoadConstruction = Symbol (str ''RoadConstruction'')"
definition WFH :: sentence where "WFH = Symbol (str ''WorkFromHome'')"
definition Drive :: sentence where "Drive = Symbol (str ''Drive'')"
definition PublicTransport :: sentence where
  "PublicTransport = Symbol (str ''PublicTransport'')"

definition rule1 :: sentence where
  "rule1 = Implication (Or [Rain, EarlyMeeting]) WFH"

definition rule2 :: sentence where
  "rule2 = Implication (And [Appointment, NotS EarlyMeeting]) Drive"

definition rule3 :: sentence where
  "rule3 = Implication (And [NotS Strike, NotS Rain]) PublicTransport"

definition knowledge_base :: sentence where
  "knowledge_base = And [rule1, rule2, rule3]"

text \<open>
  The dictionaries of the first and the fourth scenario, which \<open>perform_model_check\<close>
  receives and prints.
\<close>

definition scenario1 :: "pystr \<rightharpoonup> bool" where
  "scenario1 =
     [str ''Rain'' \<mapsto> True, str ''HeavyTraffic'' \<mapsto> True, str ''EarlyMeeting'' \<mapsto> False,
      str ''Strike'' \<mapsto> False, str ''Appointment'' \<mapsto> False]"

definition scenario4 :: "pystr \<rightharpoonup> bool" where
  "scenario4 =
     [str ''Rain'' \<mapsto> False, str ''HeavyTraffic'' \<mapsto> False, str ''EarlyMeeting'' \<mapsto> False,
      str ''Strike'' \<mapsto> False, str ''Appointment'' \<mapsto> True, str ''RoadConstruction'' \<mapsto> False]"

text \<open>The names of the knowledge base, and those of them that no scenario binds.\<close>

definition kb_names :: "pystr list" where
  "kb_names =
     [str ''Rain'', str ''EarlyMeeting'', str ''WorkFromHome'', str ''Appointment'',
      str ''Drive'', str ''Strike'', str ''PublicTransport'']"

definition decision_names :: "pystr list" where
  "decision_names = [str ''WorkFromHome'', str ''Drive'', str ''PublicTransport'']"

subsection \<open>Notions used in the statements\<close>

text \<open>The names that occur in a sentence.\<close>

fun names :: "sentence \<Rightarrow> pystr set"
  and names_each :: "sentence list \<Rightarrow> pystr set"
where
  "names (Sentence i) = {}"
| "names (Symbol name) = {name}"
| "names (NotS operand) = names operand"
| "names (And conjuncts) = names_each conjuncts"
| "names (Or disjuncts) = names_each disjuncts"
| "names (Implication a c) = names a \<union> names c"
| "names_each [] = {}"
| "names_each (c # cs) = names c \<union> names_each cs"

text \<open>A sentence built from the five concrete classes only.\<close>

fun concrete :: "sentence \<Rightarrow> bool"
  and concrete_each :: "sentence list \<Rightarrow> bool"
where
  "concrete (Sentence i) = False"
| "concrete (Symbol name) = True"
| "concrete (NotS operand) = concrete operand"
| "concrete (And conjuncts) = concrete_each conjuncts"
| "concrete (Or disjuncts) = concrete_each disjuncts"
| "concrete (Implication a c) = (concrete a \<and> concrete c)"
| "concrete_each [] = True"
| "concrete_each (c # cs) = (concrete c \<and> concrete_each cs)"

fun is_Symbol :: "sentence \<Rightarrow> bool" where
  "is_Symbol (Symbol name) = True"
| "is_Symbol _ = False"

text \<open>
  \<open>completes model ps model'\<close>: \<open>model'\<close> is \<open>model\<close> with every name of \<open>ps\<close> bound to
  some truth value, the other names as they were.
\<close>

definition completes :: "(pystr \<rightharpoonup> bool) \<Rightarrow> pystr list \<Rightarrow> (pystr \<rightharpoonup> bool) \<Rightarrow> bool" where
  "completes model ps model' =
     (dom model' = dom model \<union> set ps \<and> (\<forall>x. x \<notin> set ps \<longrightarrow> model' x = model x))"

subsection \<open>Inputs used in the examples\<close>

text \<open>
  An assignment to the names of the knowledge base in which only \<open>Strike\<close> is true.
\<close>

definition strike_model :: "pystr \<rightharpoonup> bool" where
  "strike_model = map_of (map (\<lambda>n. (n, n = str ''Strike'')) kb_names)"

text \<open>
  The program never adds the facts of a scenario to the knowledge base: it prints the
  scenario and asks \<open>model_check\<close> about \<open>knowledge_base\<close> alone. The sentence below is the
  knowledge base with the facts of the first scenario (rain, no early meeting, no strike,
  no appointment); it is an input of the examples, not a value of the program.
\<close>

definition scenario1_knowledge :: sentence where
  "scenario1_knowledge =
     And [knowledge_base, Rain, NotS EarlyMeeting, NotS Strike, NotS Appointment]"

definition scenario1_model :: "pystr \<rightharpoonup> bool" where
  "scenario1_model =
     map_of (map (\<lambda>n. (n, n = str ''Rain'' \<or> n = str ''WorkFromHome'')) kb_names)"

text \<open>One choice of the interpreter's hash functions.\<close>

definition sample_hash :: pyhash where
  "sample_hash =
     \<lparr>hash_str = (\<lambda>s. int (length s)), hash_int = (\<lambda>i. i),
      hash_tuple = (\<lambda>hs. foldl (\<lambda>acc h. 31 * acc + h) 7 hs), hash_object = int\<rparr>"

section \<open>Properties\<close>

subsection \<open>Auxiliary facts\<close>

lemma eq_iff_equal: "eq a b = (a = b)" and eq_list_iff_equal: "eq_list xs ys = (xs = ys)"
  by (induction a b and xs ys rule: eq_eq_list.induct) simp_all

lemma foldl_union: "foldl (\<union>) s others = s \<union> \<Union> (set others)"
  by (induction others arbitrary: s) auto

lemma names_each_Union: "names_each cs = \<Union> (names ` set cs)"
  by (induction cs) simp_all

lemma set_union_map_names: "set_union (map names cs) = Inr S \<Longrightarrow> S = names_each cs"
  by (cases cs) (auto simp: foldl_union names_each_Union)

lemma symbols_names: "symbols s = Inr S \<Longrightarrow> S = names s"
  and symbols_each_names: "symbols_each cs = Inr Ss \<Longrightarrow> Ss = map names cs"
proof (induction s and cs arbitrary: S and Ss rule: symbols_symbols_each.induct)
  case (4 conjuncts)
  then show ?case by (auto split: sum.splits dest: set_union_map_names)
next
  case (5 disjuncts)
  then show ?case by (auto split: sum.splits dest: set_union_map_names)
qed (auto split: sum.splits)

lemma evaluate_returns:
  "concrete s \<Longrightarrow> names s \<subseteq> dom m \<Longrightarrow> \<exists>b. evaluate s m = Inr b"
  "concrete_each cs \<Longrightarrow> names_each cs \<subseteq> dom m \<Longrightarrow> \<exists>b. evaluate_all cs m = Inr b"
  "concrete_each ds \<Longrightarrow> names_each ds \<subseteq> dom m \<Longrightarrow> \<exists>b. evaluate_any ds m = Inr b"
  by (induction s m and cs m and ds m rule: evaluate_evaluate_all_evaluate_any.induct)
     (auto split: sum.splits option.splits)

lemma evaluate_coincide:
  "(\<And>n. n \<in> names s \<Longrightarrow> m n = m' n) \<Longrightarrow> evaluate s m = evaluate s m'"
  "(\<And>n. n \<in> names_each cs \<Longrightarrow> m n = m' n) \<Longrightarrow> evaluate_all cs m = evaluate_all cs m'"
  "(\<And>n. n \<in> names_each ds \<Longrightarrow> m n = m' n) \<Longrightarrow> evaluate_any ds m = evaluate_any ds m'"
  by (induction s m and cs m and ds m rule: evaluate_evaluate_all_evaluate_any.induct)
     (auto split: sum.splits option.splits)

lemma completes_Nil: "completes m [] m' = (m' = m)"
  by (auto simp: completes_def)

lemma completes_Cons:
  "completes m (p # ps) m' =
     (completes (m(p \<mapsto> True)) ps m' \<or> completes (m(p \<mapsto> False)) ps m')"
proof
  assume c: "completes m (p # ps) m'"
  then have "p \<in> dom m'" by (auto simp: completes_def)
  then obtain b where b: "m' p = Some b" by auto
  have "completes (m(p \<mapsto> b)) ps m'"
    using c b by (auto simp: completes_def)
  then show "completes (m(p \<mapsto> True)) ps m' \<or> completes (m(p \<mapsto> False)) ps m'"
    by (cases b) auto
next
  assume "completes (m(p \<mapsto> True)) ps m' \<or> completes (m(p \<mapsto> False)) ps m'"
  then show "completes m (p # ps) m'"
    by (auto simp: completes_def split: if_splits)
qed

lemma completes_empty: "completes Map.empty ps m' = (dom m' = set ps)"
  by (auto simp: completes_def)

lemma check_all_True:
  "(check_all K Q ps m = Inr True) =
     (\<forall>m'. completes m ps m' \<longrightarrow> check_all K Q [] m' = Inr True)"
proof (induction ps arbitrary: m)
  case Nil
  show ?case by (simp only: completes_Nil) auto
next
  case (Cons p ps)
  have "(check_all K Q (p # ps) m = Inr True) =
        (check_all K Q ps (m(p \<mapsto> True)) = Inr True \<and> check_all K Q ps (m(p \<mapsto> False)) = Inr True)"
    by (auto split: sum.splits)
  then show ?case
    unfolding Cons.IH completes_Cons by blast
qed

lemma check_all_returns:
  "(\<And>m'. completes m ps m' \<Longrightarrow> \<exists>b. check_all K Q [] m' = Inr b) \<Longrightarrow>
   \<exists>b. check_all K Q ps m = Inr b"
proof (induction ps arbitrary: m)
  case Nil
  then show ?case by (simp add: completes_Nil)
next
  case (Cons p ps)
  have "\<exists>b. check_all K Q ps (m(p \<mapsto> v)) = Inr b" for v
  proof (rule Cons.IH)
    fix m' assume "completes (m(p \<mapsto> v)) ps m'"
    then have "completes m (p # ps) m'"
      by (cases v) (auto simp: completes_Cons)
    then show "\<exists>b. check_all K Q [] m' = Inr b" by (rule Cons.prems)
  qed
  then obtain t f where "check_all K Q ps (m(p \<mapsto> True)) = Inr t"
    and "check_all K Q ps (m(p \<mapsto> False)) = Inr f"
    by blast
  then show ?case by (cases t) auto
qed

lemma model_check_unfold:
  "symbols K = Inr SK \<Longrightarrow> symbols Q = Inr SQ \<Longrightarrow>
   model_check po K Q = check_all K Q (po (SK \<union> SQ)) Map.empty"
  by (simp add: model_check_def)

lemma model_check_True:
  assumes "symbols K = Inr SK" "symbols Q = Inr SQ" "set (po (SK \<union> SQ)) = SK \<union> SQ"
  shows "(model_check po K Q = Inr True) =
         (\<forall>m. dom m = SK \<union> SQ \<longrightarrow> check_all K Q [] m = Inr True)"
  using assms by (simp add: model_check_unfold check_all_True completes_empty)

lemma model_check_fails:
  "symbols K = Inl e \<Longrightarrow> model_check po K Q = Inl e"
  "symbols K = Inr SK \<Longrightarrow> symbols Q = Inl e \<Longrightarrow> model_check po K Q = Inl e"
  by (simp_all add: model_check_def)

lemma leaf_concrete:
  assumes "concrete K" "names K \<subseteq> dom m"
  shows "(check_all K Q [] m = Inr True) = (evaluate K m = Inr True \<longrightarrow> evaluate Q m = Inr True)"
proof -
  obtain k where "evaluate K m = Inr k" using evaluate_returns(1)[OF assms] by blast
  then show ?thesis by (cases k) auto
qed

lemma model_check_concrete:
  assumes "symbols K = Inr SK" "symbols Q = Inr SQ" "set (po (SK \<union> SQ)) = SK \<union> SQ"
    and "concrete K" "concrete Q"
  shows "model_check po K Q =
         Inr (\<forall>m. dom m = SK \<union> SQ \<longrightarrow> evaluate K m = Inr True \<longrightarrow> evaluate Q m = Inr True)"
proof -
  have SK: "SK = names K" and SQ: "SQ = names Q"
    using assms(1,2) by (auto dest: symbols_names)
  have ret: "\<exists>b. check_all K Q [] m' = Inr b" if "completes Map.empty (po (SK \<union> SQ)) m'" for m'
  proof -
    from that assms(3) have d: "dom m' = SK \<union> SQ" by (simp add: completes_empty)
    obtain k where k: "evaluate K m' = Inr k"
      using evaluate_returns(1)[OF assms(4), of m'] d SK by auto
    obtain q where q: "evaluate Q m' = Inr q"
      using evaluate_returns(1)[OF assms(5), of m'] d SQ by auto
    show ?thesis using k q by (cases k) auto
  qed
  obtain b where b: "model_check po K Q = Inr b"
    using check_all_returns[of Map.empty "po (SK \<union> SQ)" K Q] ret
    by (auto simp: model_check_unfold[OF assms(1,2)])
  have "b = (\<forall>m. dom m = SK \<union> SQ \<longrightarrow> check_all K Q [] m = Inr True)"
    using model_check_True[of K SK Q SQ po] assms(1,2,3) b by simp
  also have "\<dots> = (\<forall>m. dom m = SK \<union> SQ \<longrightarrow> evaluate K m = Inr True \<longrightarrow> evaluate Q m = Inr True)"
    using leaf_concrete[OF assms(4)] SK by (metis Un_upper1)
  finally show ?thesis using b by simp
qed

lemma set_pop_in_order: "S \<subseteq> set ns \<Longrightarrow> set (pop_in_order ns S) = S"
  by (auto simp: pop_in_order_def)

subsection \<open>Entailment\<close>

text \<open>
  When both calls of \<open>symbols()\<close> return and the knowledge is built from the five concrete
  classes, \<open>model_check\<close> returns \<open>True\<close> exactly when every assignment to the union of the
  two symbol sets that makes the knowledge true makes the query true. This holds for every
  order in which \<open>pop\<close> empties that union. It says nothing about a sentence that contains
  an \<open>And\<close> or \<open>Or\<close> without children, for which \<open>symbols()\<close> raises.
\<close>

theorem model_check_entails:
  assumes "symbols knowledge = Inr ks" and "symbols query = Inr qs"
    and "set (pop_order (ks \<union> qs)) = ks \<union> qs"
    and "concrete knowledge"
  shows "(model_check pop_order knowledge query = Inr True) =
         (\<forall>model. dom model = ks \<union> qs \<longrightarrow>
            evaluate knowledge model = Inr True \<longrightarrow> evaluate query model = Inr True)"
proof -
  have ks: "ks = names knowledge" using assms(1) by (rule symbols_names)
  have "(model_check pop_order knowledge query = Inr True) =
        (\<forall>m. dom m = ks \<union> qs \<longrightarrow> check_all knowledge query [] m = Inr True)"
    using assms(1,2,3) by (rule model_check_True)
  also have "\<dots> = (\<forall>m. dom m = ks \<union> qs \<longrightarrow>
            evaluate knowledge m = Inr True \<longrightarrow> evaluate query m = Inr True)"
    using leaf_concrete[OF assms(4)] ks by (metis Un_upper1)
  finally show ?thesis .
qed

theorem model_check_entails_witness:
  "symbols (And [Symbol (str ''A''), Symbol (str ''B'')]) = Inr {str ''A'', str ''B''}
   \<and> symbols (Symbol (str ''A'')) = Inr {str ''A''}
   \<and> set (pop_in_order [str ''A'', str ''B''] ({str ''A'', str ''B''} \<union> {str ''A''}))
       = {str ''A'', str ''B''} \<union> {str ''A''}
   \<and> concrete (And [Symbol (str ''A''), Symbol (str ''B'')])
   \<and> model_check (pop_in_order [str ''A'', str ''B''])
         (And [Symbol (str ''A''), Symbol (str ''B'')]) (Symbol (str ''A'')) = Inr True
   \<and> ((model_check (pop_in_order [str ''A'', str ''B''])
         (And [Symbol (str ''A''), Symbol (str ''B'')]) (Symbol (str ''A'')) = Inr True) =
       (\<forall>model. dom model = {str ''A'', str ''B''} \<union> {str ''A''} \<longrightarrow>
          evaluate (And [Symbol (str ''A''), Symbol (str ''B'')]) model = Inr True \<longrightarrow>
          evaluate (Symbol (str ''A'')) model = Inr True))"
proof -
  have 1: "symbols (And [Symbol (str ''A''), Symbol (str ''B'')]) = Inr {str ''A'', str ''B''}"
    by (auto simp: str_def)
  have 2: "symbols (Symbol (str ''A'')) = Inr {str ''A''}" by simp
  have 3: "set (pop_in_order [str ''A'', str ''B''] ({str ''A'', str ''B''} \<union> {str ''A''}))
       = {str ''A'', str ''B''} \<union> {str ''A''}"
    by (auto simp: pop_in_order_def str_def)
  have 4: "concrete (And [Symbol (str ''A''), Symbol (str ''B'')])" by simp
  have 5: "model_check (pop_in_order [str ''A'', str ''B''])
         (And [Symbol (str ''A''), Symbol (str ''B'')]) (Symbol (str ''A'')) = Inr True"
    by (simp add: model_check_def pop_in_order_def str_def)
  show ?thesis
    using 1 2 3 4 5 model_check_entails[of "And [Symbol (str ''A''), Symbol (str ''B'')]" "{str ''A'', str ''B''}" "Symbol (str ''A'')" "{str ''A''}" "pop_in_order [str ''A'', str ''B'']"] by blast
qed

text \<open>
  C1 (the claim holds that \<open>model_check\<close> returns \<open>True\<close> exactly when the knowledge entails
  the query). The symbol \<open>A\<close> entails \<open>Or(A, And())\<close>: every assignment to \<open>A\<close> that makes
  \<open>A\<close> true makes the disjunction true. \<open>model_check\<close> does not return \<open>True\<close> there: it
  starts with \<open>symbols()\<close>, which raises the \<open>TypeError\<close> of \<open>set.union\<close> at the \<open>And\<close>
  without children.
\<close>

theorem model_check_childless_operand:
  "model_check pop_order (Symbol n) (Or [Symbol n, And []]) = Inl UnionNeedsArgument
   \<and> (\<forall>model. dom model = {n} \<longrightarrow>
          evaluate (Symbol n) model = Inr True \<longrightarrow>
          evaluate (Or [Symbol n, And []]) model = Inr True)"
  by (auto simp: model_check_def split: option.splits)

theorem model_check_childless_operand_witness:
  "model_check (pop_in_order [str ''A'']) (Symbol (str ''A''))
      (Or [Symbol (str ''A''), And []]) = Inl UnionNeedsArgument
   \<and> dom [str ''A'' \<mapsto> True] = {str ''A''}
   \<and> evaluate (Symbol (str ''A'')) [str ''A'' \<mapsto> True] = Inr True
   \<and> evaluate (Or [Symbol (str ''A''), And []]) [str ''A'' \<mapsto> True] = Inr True"
  using model_check_childless_operand[of "pop_in_order [str ''A'']" "str ''A''"]
  by simp

text \<open>
  C9. If \<open>model_check(K, Q1)\<close> and \<open>model_check(K, Q2)\<close> both return \<open>True\<close>, then so does
  \<open>model_check(K, And(Q1, Q2))\<close>, whatever the order in which \<open>pop\<close> empties the three
  symbol sets.
\<close>

theorem entailment_conjunction:
  assumes "symbols K = Inr ks" and "symbols Q1 = Inr qs1" and "symbols Q2 = Inr qs2"
    and "set (pop_order (ks \<union> qs1)) = ks \<union> qs1"
    and "set (pop_order (ks \<union> qs2)) = ks \<union> qs2"
    and "set (pop_order (ks \<union> (qs1 \<union> qs2))) = ks \<union> (qs1 \<union> qs2)"
    and "model_check pop_order K Q1 = Inr True"
    and "model_check pop_order K Q2 = Inr True"
  shows "model_check pop_order K (And [Q1, Q2]) = Inr True"
proof -
  have ks: "ks = names K" and qs1: "qs1 = names Q1" and qs2: "qs2 = names Q2"
    using assms(1,2,3) by (auto dest: symbols_names)
  have sa: "symbols (And [Q1, Q2]) = Inr (qs1 \<union> qs2)"
    using assms(2,3) by simp
  have l1: "\<And>m. dom m = ks \<union> qs1 \<Longrightarrow> check_all K Q1 [] m = Inr True"
    using model_check_True[of K ks Q1 qs1 pop_order] assms(1,2,4,7) by simp
  have l2: "\<And>m. dom m = ks \<union> qs2 \<Longrightarrow> check_all K Q2 [] m = Inr True"
    using model_check_True[of K ks Q2 qs2 pop_order] assms(1,3,5,8) by simp
  have "check_all K (And [Q1, Q2]) [] m = Inr True" if d: "dom m = ks \<union> (qs1 \<union> qs2)" for m
  proof -
    let ?m1 = "m |` (ks \<union> qs1)" and ?m2 = "m |` (ks \<union> qs2)"
    have "dom ?m1 = ks \<union> qs1" "dom ?m2 = ks \<union> qs2" using d by auto
    then have c1: "check_all K Q1 [] ?m1 = Inr True" and c2: "check_all K Q2 [] ?m2 = Inr True"
      using l1 l2 by blast+
    have "evaluate K ?m1 = evaluate K m" "evaluate Q1 ?m1 = evaluate Q1 m"
         "evaluate K ?m2 = evaluate K m" "evaluate Q2 ?m2 = evaluate Q2 m"
      by (rule evaluate_coincide(1); simp add: ks qs1 qs2)+
    with c1 c2 show ?thesis
      by (auto split: sum.splits if_splits)
  qed
  then show ?thesis
    using model_check_True[of K ks "And [Q1, Q2]" "qs1 \<union> qs2" pop_order] assms(1,6) sa by simp
qed

theorem entailment_conjunction_witness:
  "symbols (Symbol (str ''A'')) = Inr {str ''A''}
   \<and> symbols (Or [Symbol (str ''A''), Symbol (str ''B'')]) = Inr {str ''A'', str ''B''}
   \<and> set (pop_in_order [str ''A'', str ''B''] ({str ''A''} \<union> {str ''A''})) = {str ''A''} \<union> {str ''A''}
   \<and> set (pop_in_order [str ''A'', str ''B''] ({str ''A''} \<union> {str ''A'', str ''B''}))
       = {str ''A''} \<union> {str ''A'', str ''B''}
   \<and> set (pop_in_order [str ''A'', str ''B''] ({str ''A''} \<union> ({str ''A''} \<union> {str ''A'', str ''B''})))
       = {str ''A''} \<union> ({str ''A''} \<union> {str ''A'', str ''B''})
   \<and> model_check (pop_in_order [str ''A'', str ''B'']) (Symbol (str ''A'')) (Symbol (str ''A''))
       = Inr True
   \<and> model_check (pop_in_order [str ''A'', str ''B'']) (Symbol (str ''A''))
         (Or [Symbol (str ''A''), Symbol (str ''B'')]) = Inr True
   \<and> model_check (pop_in_order [str ''A'', str ''B'']) (Symbol (str ''A''))
         (And [Symbol (str ''A''), Or [Symbol (str ''A''), Symbol (str ''B'')]]) = Inr True"
proof -
  let ?po = "pop_in_order [str ''A'', str ''B'']"
  let ?A = "Symbol (str ''A'')" and ?AB = "Or [Symbol (str ''A''), Symbol (str ''B'')]"
  have 1: "symbols ?A = Inr {str ''A''}" by simp
  have 2: "symbols ?AB = Inr {str ''A'', str ''B''}" by (auto simp: str_def)
  have 3: "set (?po ({str ''A''} \<union> {str ''A''})) = {str ''A''} \<union> {str ''A''}"
    by (auto simp: pop_in_order_def str_def)
  have 4: "set (?po ({str ''A''} \<union> {str ''A'', str ''B''})) = {str ''A''} \<union> {str ''A'', str ''B''}"
    by (auto simp: pop_in_order_def str_def)
  have 5: "set (?po ({str ''A''} \<union> ({str ''A''} \<union> {str ''A'', str ''B''})))
       = {str ''A''} \<union> ({str ''A''} \<union> {str ''A'', str ''B''})"
    by (auto simp: pop_in_order_def str_def)
  have 6: "model_check ?po ?A ?A = Inr True"
    by (simp add: model_check_def pop_in_order_def str_def)
  have 7: "model_check ?po ?A ?AB = Inr True"
    by (simp add: model_check_def pop_in_order_def str_def)
  show ?thesis
    using 1 2 3 4 5 6 7
      entailment_conjunction[of ?A "{str ''A''}" ?A "{str ''A''}" ?AB "{str ''A'', str ''B''}" ?po]
    by blast
qed

subsection \<open>The commuting rules\<close>

lemmas kb_defs = knowledge_base_def rule1_def rule2_def rule3_def Rain_def EarlyMeeting_def
  Strike_def Appointment_def WFH_def Drive_def PublicTransport_def

lemma symbols_knowledge_base: "symbols knowledge_base = Inr (set kb_names)"
  by (auto simp: kb_defs kb_names_def)

lemma concrete_knowledge_base: "concrete knowledge_base"
  by (simp add: kb_defs)

lemma dom_strike_model: "dom strike_model = set kb_names"
  by (simp add: strike_model_def dom_map_of_conv_image_fst image_image)

lemma strike_model_knowledge: "evaluate knowledge_base strike_model = Inr True"
  by (simp add: kb_defs strike_model_def kb_names_def str_def)

lemma strike_model_queries:
  "evaluate WFH strike_model = Inr False"
  "evaluate PublicTransport strike_model = Inr False"
  "evaluate Drive strike_model = Inr False"
  by (simp_all add: kb_defs strike_model_def kb_names_def str_def)

lemma query_symbols:
  "symbols WFH = Inr {str ''WorkFromHome''}"
  "symbols PublicTransport = Inr {str ''PublicTransport''}"
  "symbols Drive = Inr {str ''Drive''}"
  by (simp_all add: kb_defs)

lemma query_names_in_kb:
  "set kb_names \<union> {str ''WorkFromHome''} = set kb_names"
  "set kb_names \<union> {str ''PublicTransport''} = set kb_names"
  "set kb_names \<union> {str ''Drive''} = set kb_names"
  by (auto simp: kb_names_def)

lemma knowledge_base_alone:
  assumes "set (po (set kb_names)) = set kb_names"
  shows "model_check po knowledge_base WFH = Inr False"
    and "model_check po knowledge_base PublicTransport = Inr False"
    and "model_check po knowledge_base Drive = Inr False"
proof -
  have *: "model_check po knowledge_base Q = Inr False"
    if "symbols Q = Inr qs" "set kb_names \<union> qs = set kb_names" "concrete Q"
       "evaluate Q strike_model = Inr False" for Q qs
  proof -
    have "model_check po knowledge_base Q =
         Inr (\<forall>m. dom m = set kb_names \<union> qs \<longrightarrow>
                evaluate knowledge_base m = Inr True \<longrightarrow> evaluate Q m = Inr True)"
      using model_check_concrete[of knowledge_base "set kb_names" Q qs po]
        symbols_knowledge_base that(1,2,3) assms concrete_knowledge_base by simp
    moreover have "\<not> (\<forall>m. dom m = set kb_names \<union> qs \<longrightarrow>
                evaluate knowledge_base m = Inr True \<longrightarrow> evaluate Q m = Inr True)"
      using dom_strike_model strike_model_knowledge that(2,4) by (metis Inr_inject)
    ultimately show ?thesis by simp
  qed
  show "model_check po knowledge_base WFH = Inr False"
    by (rule *[OF query_symbols(1) query_names_in_kb(1)])
       (simp_all add: strike_model_queries, simp add: WFH_def)
  show "model_check po knowledge_base PublicTransport = Inr False"
    by (rule *[OF query_symbols(2) query_names_in_kb(2)])
       (simp_all add: strike_model_queries, simp add: PublicTransport_def)
  show "model_check po knowledge_base Drive = Inr False"
    by (rule *[OF query_symbols(3) query_names_in_kb(3)])
       (simp_all add: strike_model_queries, simp add: Drive_def)
qed

lemma set_pop_kb: "set (pop_in_order kb_names (set kb_names)) = set kb_names"
  by (simp add: set_pop_in_order)

lemma symbols_scenario1: "symbols scenario1_knowledge = Inr (set kb_names)"
  by (auto simp: scenario1_knowledge_def kb_defs kb_names_def)

lemma concrete_scenario1: "concrete scenario1_knowledge"
  by (simp add: scenario1_knowledge_def kb_defs)

lemma dom_scenario1_model: "dom scenario1_model = set kb_names"
  by (simp add: scenario1_model_def dom_map_of_conv_image_fst image_image)

lemma scenario1_model_values:
  "evaluate scenario1_knowledge scenario1_model = Inr True"
  "evaluate PublicTransport scenario1_model = Inr False"
  "evaluate Drive scenario1_model = Inr False"
  by (simp_all add: scenario1_knowledge_def kb_defs scenario1_model_def kb_names_def str_def)

lemma scenario1_forces_WFH:
  assumes "dom m = set kb_names" "evaluate scenario1_knowledge m = Inr True"
  shows "evaluate WFH m = Inr True"
proof -
  have "str ''Rain'' \<in> dom m" "str ''EarlyMeeting'' \<in> dom m" "str ''WorkFromHome'' \<in> dom m"
    using assms(1) by (simp_all add: kb_names_def)
  then obtain r e w where "m (str ''Rain'') = Some r" "m (str ''EarlyMeeting'') = Some e"
    "m (str ''WorkFromHome'') = Some w" by blast
  then show ?thesis
    using assms(2)
    by (auto simp: scenario1_knowledge_def kb_defs split: sum.splits if_splits)
qed

lemma scenario1_added_to_knowledge:
  assumes "set (po (set kb_names)) = set kb_names"
  shows "model_check po scenario1_knowledge WFH = Inr True"
    and "model_check po scenario1_knowledge PublicTransport = Inr False"
    and "model_check po scenario1_knowledge Drive = Inr False"
proof -
  have mc: "model_check po scenario1_knowledge Q =
         Inr (\<forall>m. dom m = set kb_names \<longrightarrow>
                evaluate scenario1_knowledge m = Inr True \<longrightarrow> evaluate Q m = Inr True)"
    if "symbols Q = Inr qs" "set kb_names \<union> qs = set kb_names" "concrete Q" for Q qs
    using model_check_concrete[of scenario1_knowledge "set kb_names" Q qs po]
      symbols_scenario1 that assms concrete_scenario1 by simp
  show "model_check po scenario1_knowledge WFH = Inr True"
    using mc[OF query_symbols(1) query_names_in_kb(1)] scenario1_forces_WFH
    by (simp add: WFH_def)
  have no: "\<not> (\<forall>m. dom m = set kb_names \<longrightarrow>
                evaluate scenario1_knowledge m = Inr True \<longrightarrow> evaluate Q m = Inr True)"
    if "evaluate Q scenario1_model = Inr False" for Q
    using dom_scenario1_model scenario1_model_values(1) that by (metis Inr_inject)
  show "model_check po scenario1_knowledge PublicTransport = Inr False"
    using mc[OF query_symbols(2) query_names_in_kb(2)] no[OF scenario1_model_values(2)]
    by (simp add: PublicTransport_def)
  show "model_check po scenario1_knowledge Drive = Inr False"
    using mc[OF query_symbols(3) query_names_in_kb(3)] no[OF scenario1_model_values(3)]
    by (simp add: Drive_def)
qed

text \<open>
  What the claim expects is what \<open>check_all\<close> returns when it starts from the dictionary
  of the scenario and assigns the three names the scenario leaves open.
\<close>

lemma check_all_concrete:
  assumes "concrete K" "concrete Q" "names K \<union> names Q \<subseteq> dom m \<union> set ps"
  shows "check_all K Q ps m =
         Inr (\<forall>m'. completes m ps m' \<longrightarrow> evaluate K m' = Inr True \<longrightarrow> evaluate Q m' = Inr True)"
proof -
  have sub: "names K \<subseteq> dom m'" "names Q \<subseteq> dom m'" if "completes m ps m'" for m'
    using that assms(3) by (auto simp: completes_def)
  have "\<exists>b. check_all K Q [] m' = Inr b" if c: "completes m ps m'" for m'
  proof -
    obtain k q where "evaluate K m' = Inr k" "evaluate Q m' = Inr q"
      using evaluate_returns(1)[OF assms(1) sub(1)[OF c]]
        evaluate_returns(1)[OF assms(2) sub(2)[OF c]] by blast
    then show ?thesis by (cases k) auto
  qed
  then obtain b where b: "check_all K Q ps m = Inr b"
    using check_all_returns[of m ps K Q] by blast
  have "b = (\<forall>m'. completes m ps m' \<longrightarrow> check_all K Q [] m' = Inr True)"
    using check_all_True[of K Q ps m] b by simp
  also have "\<dots> = (\<forall>m'. completes m ps m' \<longrightarrow>
                 evaluate K m' = Inr True \<longrightarrow> evaluate Q m' = Inr True)"
    using leaf_concrete[OF assms(1)] sub(1) by blast
  finally show ?thesis using b by simp
qed

lemma names_knowledge_base: "names knowledge_base = set kb_names"
  by (auto simp: kb_defs kb_names_def)

lemma scenario1_check_all:
  assumes "set ps = set decision_names"
  shows "check_all knowledge_base WFH ps scenario1 = Inr True"
    and "check_all knowledge_base PublicTransport ps scenario1 = Inr False"
    and "check_all knowledge_base Drive ps scenario1 = Inr False"
proof -
  have cov: "names knowledge_base \<union> names Q \<subseteq> dom scenario1 \<union> set ps"
    if "names Q \<subseteq> set decision_names" for Q
    using that assms
    by (auto simp: names_knowledge_base kb_names_def scenario1_def decision_names_def)
  let ?m = "scenario1(str ''WorkFromHome'' \<mapsto> True, str ''Drive'' \<mapsto> False,
              str ''PublicTransport'' \<mapsto> False)"
  have c: "completes scenario1 ps ?m"
    using assms by (auto simp: completes_def decision_names_def)
  have k: "evaluate knowledge_base ?m = Inr True"
    by (simp add: kb_defs scenario1_def str_def)
  have forced: "evaluate WFH m' = Inr True"
    if "completes scenario1 ps m'" "evaluate knowledge_base m' = Inr True" for m'
  proof -
    have "m' (str ''Rain'') = Some True"
      using that(1) assms by (simp add: completes_def decision_names_def scenario1_def str_def)
    moreover have "str ''WorkFromHome'' \<in> dom m'"
      using that(1) assms by (simp add: completes_def decision_names_def)
    then obtain w where "m' (str ''WorkFromHome'') = Some w" by blast
    ultimately show ?thesis
      using that(2) by (auto simp: kb_defs split: sum.splits if_splits)
  qed
  show "check_all knowledge_base WFH ps scenario1 = Inr True"
    using check_all_concrete[OF concrete_knowledge_base _ cov, of WFH] forced
    by (simp add: WFH_def decision_names_def)
  have "\<not> (\<forall>m'. completes scenario1 ps m' \<longrightarrow>
            evaluate knowledge_base m' = Inr True \<longrightarrow> evaluate PublicTransport m' = Inr True)"
    using c k by (auto simp: PublicTransport_def str_def)
  then show "check_all knowledge_base PublicTransport ps scenario1 = Inr False"
    using check_all_concrete[OF concrete_knowledge_base _ cov, of PublicTransport]
    by (simp add: PublicTransport_def decision_names_def)
  have "\<not> (\<forall>m'. completes scenario1 ps m' \<longrightarrow>
            evaluate knowledge_base m' = Inr True \<longrightarrow> evaluate Drive m' = Inr True)"
    using c k by (auto simp: Drive_def str_def)
  then show "check_all knowledge_base Drive ps scenario1 = Inr False"
    using check_all_concrete[OF concrete_knowledge_base _ cov, of Drive]
    by (simp add: Drive_def decision_names_def)
qed

lemma scenario4_check_all:
  assumes "set ps = set decision_names"
  shows "check_all knowledge_base Drive ps scenario4 = Inr True"
proof -
  have cov: "names knowledge_base \<union> names Drive \<subseteq> dom scenario4 \<union> set ps"
    using assms
    by (auto simp: names_knowledge_base kb_names_def scenario4_def decision_names_def Drive_def)
  have forced: "evaluate Drive m' = Inr True"
    if "completes scenario4 ps m'" "evaluate knowledge_base m' = Inr True" for m'
  proof -
    have "m' (str ''Rain'') = Some False" "m' (str ''EarlyMeeting'') = Some False"
      "m' (str ''Appointment'') = Some True"
      using that(1) assms by (simp_all add: completes_def decision_names_def scenario4_def str_def)
    moreover have "str ''Drive'' \<in> dom m'"
      using that(1) assms by (simp add: completes_def decision_names_def)
    then obtain w where "m' (str ''Drive'') = Some w" by blast
    ultimately show ?thesis
      using that(2) by (auto simp: kb_defs split: sum.splits if_splits)
  qed
  show ?thesis
    using check_all_concrete[OF concrete_knowledge_base _ cov] forced
    by (simp add: Drive_def)
qed

text \<open>
  C3 (the claim holds that in the first scenario \<open>model_check\<close> returns \<open>True\<close> for \<open>WFH\<close> and
  \<open>False\<close> for \<open>PublicTransport\<close> and \<open>Drive\<close>). The program passes the knowledge base of the
  three rules alone; the scenario is printed and never used. \<open>model_check\<close> then returns
  \<open>False\<close> for \<open>WFH\<close>, for \<open>PublicTransport\<close> and for \<open>Drive\<close>, in every scenario. With the four
  facts of the scenario conjoined to the knowledge base it returns what the claim says:
  \<open>True\<close> for \<open>WFH\<close>, \<open>False\<close> for \<open>PublicTransport\<close> and for \<open>Drive\<close>. Both hold for every order
  in which \<open>pop\<close> empties the symbol set.
\<close>

theorem knowledge_base_queries:
  assumes "set (pop_order (set kb_names)) = set kb_names"
  shows "model_check pop_order knowledge_base WFH = Inr False
         \<and> model_check pop_order knowledge_base PublicTransport = Inr False
         \<and> model_check pop_order knowledge_base Drive = Inr False
         \<and> model_check pop_order scenario1_knowledge WFH = Inr True
         \<and> model_check pop_order scenario1_knowledge PublicTransport = Inr False
         \<and> model_check pop_order scenario1_knowledge Drive = Inr False"
  using knowledge_base_alone[of pop_order] scenario1_added_to_knowledge[of pop_order] assms
  by simp

theorem knowledge_base_queries_witness:
  "set (pop_in_order kb_names (set kb_names)) = set kb_names
   \<and> model_check (pop_in_order kb_names) knowledge_base WFH = Inr False
   \<and> model_check (pop_in_order kb_names) knowledge_base PublicTransport = Inr False
   \<and> model_check (pop_in_order kb_names) knowledge_base Drive = Inr False
   \<and> model_check (pop_in_order kb_names) scenario1_knowledge WFH = Inr True"
  using knowledge_base_queries[of "pop_in_order kb_names"] set_pop_kb by simp

subsection \<open>Symbols of a connective without children\<close>

text \<open>
  The other methods accept an \<open>And\<close> or an \<open>Or\<close> without children; \<open>symbols\<close> does not, and
  \<open>model_check\<close>, which starts with \<open>symbols\<close>, fails with it.
\<close>

lemma zero_children_other_methods:
  "evaluate (And []) model = Inr True" "evaluate (Or []) model = Inr False"
  "formula (And []) = []" "formula (Or []) = []"
  by simp_all

lemma model_check_zero_children:
  "model_check pop_order (And []) query = Inl UnionNeedsArgument"
  "model_check pop_order (Symbol name) (Or []) = Inl UnionNeedsArgument"
  by (simp_all add: model_check_def)

text \<open>
  C2 (the claim holds that \<open>symbols()\<close> of an \<open>And\<close> or \<open>Or\<close> without children returns the
  empty set). In the program both calls raise the \<open>TypeError\<close> of \<open>set.union\<close> called
  without an argument.
\<close>

theorem symbols_zero_children:
  "symbols (And []) = Inl UnionNeedsArgument \<and> symbols (Or []) = Inl UnionNeedsArgument"
  by simp

subsection \<open>Evaluating a symbol\<close>

text \<open>
  C4. \<open>Symbol.evaluate\<close> raises exactly when the name is not a key of the model; a bound
  name yields its value, and an unbound name yields the exception that carries the name,
  never \<open>False\<close>.
\<close>

theorem symbol_evaluate:
  "((\<exists>e. evaluate (Symbol name) model = Inl e) = (name \<notin> dom model))
   \<and> (model name = Some v \<longrightarrow> evaluate (Symbol name) model = Inr v)
   \<and> (model name = None \<longrightarrow> evaluate (Symbol name) model = Inl (VariableNotInModel name))"
  by (auto split: option.splits)

theorem symbol_evaluate_witness:
  "[str ''A'' \<mapsto> True] (str ''A'') = Some True
   \<and> evaluate (Symbol (str ''A'')) [str ''A'' \<mapsto> True] = Inr True
   \<and> [str ''A'' \<mapsto> True] (str ''B'') = None
   \<and> evaluate (Symbol (str ''B'')) [str ''A'' \<mapsto> True] = Inl (VariableNotInModel (str ''B''))"
proof -
  have 1: "[str ''A'' \<mapsto> True] (str ''A'') = Some True" by simp
  have 2: "[str ''A'' \<mapsto> True] (str ''B'') = None" by (simp add: str_def)
  show ?thesis
    using 1 2 symbol_evaluate[of "str ''A''" "[str ''A'' \<mapsto> True]" True]
      symbol_evaluate[of "str ''B''" "[str ''A'' \<mapsto> True]" True]
    by blast
qed

subsection \<open>The base class\<close>

text \<open>
  C5 (as stated, refuted). The claim has \<open>symbols()\<close> fail on an instance of the base class;
  the call returns.
\<close>

theorem base_symbols_returns: "\<not> isl (symbols (Sentence 0))"
  by simp

text \<open>
  C5 (amended). On an instance of the base class \<open>evaluate\<close> raises
  \<open>Exception("nothing to evaluate")\<close>, \<open>formula()\<close> returns the empty string and \<open>symbols()\<close>
  returns the empty set.
\<close>

theorem base_methods:
  "evaluate (Sentence i) model = Inl NothingToEvaluate
   \<and> formula (Sentence i) = []
   \<and> symbols (Sentence i) = Inr {}"
  by simp

subsection \<open>Construction\<close>

lemma validate_iff: "validate v = (if is_sentence v then Inr (the_sentence v) else Inl MustBeLogicalSentence)"
  by (cases v) simp_all

lemma validate_each_iff:
  "validate_each vs =
     (if list_all is_sentence vs then Inr (map the_sentence vs) else Inl MustBeLogicalSentence)"
  by (induction vs) (auto simp: validate_iff)

text \<open>
  C6. \<open>Not\<close>, \<open>And\<close>, \<open>Or\<close> and \<open>Implication\<close> return the \<open>TypeError\<close> of \<open>validate\<close> when one
  of their operands is not a \<open>Sentence\<close>, and the sentence built from the operands when all
  of them are.
\<close>

theorem constructors_validate:
  "Not_init v = (if is_sentence v then Inr (NotS (the_sentence v)) else Inl MustBeLogicalSentence)
   \<and> And_init vs =
       (if list_all is_sentence vs then Inr (And (map the_sentence vs)) else Inl MustBeLogicalSentence)
   \<and> Or_init vs =
       (if list_all is_sentence vs then Inr (Or (map the_sentence vs)) else Inl MustBeLogicalSentence)
   \<and> Implication_init v w =
       (if is_sentence v \<and> is_sentence w then Inr (Implication (the_sentence v) (the_sentence w))
        else Inl MustBeLogicalSentence)
   \<and> is_TypeError MustBeLogicalSentence"
  by (simp add: Not_init_def And_init_def Or_init_def Implication_init_def validate_iff
      validate_each_iff)

theorem constructors_validate_witness:
  "Not_init (StrObj (str ''A'')) = Inl MustBeLogicalSentence
   \<and> Not_init (SentenceObj (Symbol (str ''A''))) = Inr (NotS (Symbol (str ''A'')))
   \<and> And_init [SentenceObj (Symbol (str ''A'')), IntObj 3] = Inl MustBeLogicalSentence
   \<and> Or_init [SentenceObj (Symbol (str ''A'')), SentenceObj (Symbol (str ''B''))]
       = Inr (Or [Symbol (str ''A''), Symbol (str ''B'')])
   \<and> Implication_init (SentenceObj (Symbol (str ''A''))) NoneObj = Inl MustBeLogicalSentence"
  using constructors_validate[of "StrObj (str ''A'')" "[SentenceObj (Symbol (str ''A'')), IntObj 3]" NoneObj]
    constructors_validate[of "SentenceObj (Symbol (str ''A''))"
      "[SentenceObj (Symbol (str ''A'')), SentenceObj (Symbol (str ''B''))]" NoneObj]
  by simp

subsection \<open>Equality and hashing\<close>

text \<open>
  C7. \<open>__eq__\<close> is reflexive, symmetric and transitive; \<open>Symbol("A")\<close> equals \<open>Symbol("A")\<close>
  and differs from \<open>Symbol("B")\<close>; equal sentences have the same hash, whatever the
  interpreter's hash functions are.
\<close>

theorem structural_equality:
  "eq a a
   \<and> (eq a b \<longrightarrow> eq b a)
   \<and> (eq a b \<and> eq b c \<longrightarrow> eq a c)
   \<and> eq (Symbol (str ''A'')) (Symbol (str ''A''))
   \<and> \<not> eq (Symbol (str ''A'')) (Symbol (str ''B''))
   \<and> (eq a b \<longrightarrow> hash H a = hash H b)"
  by (simp add: eq_iff_equal str_def)

theorem structural_equality_witness:
  "eq (And [Symbol (str ''A''), NotS (Symbol (str ''B''))]) (And [Symbol (str ''A''), NotS (Symbol (str ''B''))])
   \<and> hash sample_hash (And [Symbol (str ''A''), NotS (Symbol (str ''B''))])
       = hash sample_hash (And [Symbol (str ''A''), NotS (Symbol (str ''B''))])"
  using structural_equality[of "And [Symbol (str ''A''), NotS (Symbol (str ''B''))]"
      "And [Symbol (str ''A''), NotS (Symbol (str ''B''))]"
      "And [Symbol (str ''A''), NotS (Symbol (str ''B''))]" sample_hash]
  by blast

subsection \<open>Rendering\<close>

lemma formula_each_map: "formula_each cs = map (\<lambda>c. parenthesize (formula c)) cs"
  by (induction cs) simp_all

lemma wrapped_differs: "str ''('' @ s @ str '')'' \<noteq> s"
proof
  assume "str ''('' @ s @ str '')'' = s"
  then have "length (str ''('' @ s @ str '')'') = length s" by simp
  then show False by (simp add: str_def)
qed

lemma parenthesize_wraps:
  "(parenthesize s = str ''('' @ s @ str '')'') = (s \<noteq> [] \<and> \<not> isalpha s \<and> \<not> outer_parenthesized s)"
  using wrapped_differs[of s] by (auto simp: parenthesize_def)

lemma parenthesize_keeps:
  "(parenthesize s = s) = (s = [] \<or> isalpha s \<or> outer_parenthesized s)"
  using wrapped_differs[of s] by (auto simp: parenthesize_def)

lemma formula_And_many:
  "length es \<noteq> 1 \<Longrightarrow> formula (And es) = join and_sep (map (\<lambda>e. parenthesize (formula e)) es)"
  by (auto simp: formula_each_map split: list.splits)

lemma formula_Or_many:
  "length es \<noteq> 1 \<Longrightarrow> formula (Or es) = join or_sep (map (\<lambda>e. parenthesize (formula e)) es)"
  by (auto simp: formula_each_map split: list.splits)

lemma empty_operand_not_parenthesized: "formula (NotS (And [])) = not_sign"
  by (simp add: parenthesize_def)

text \<open>
  C8 (as stated, refuted). The claim has every sub-expression parenthesized unless it is a
  single symbol or already enclosed in parentheses. The only child of an \<open>Or\<close> is rendered
  as it is: \<open>Or(And(A, B))\<close> renders as \<open>A \<and> B\<close>, where the conjunction is neither a
  symbol nor enclosed in parentheses.
\<close>

theorem single_child_not_parenthesized:
  "\<not> is_Symbol (And [Symbol (str ''A''), Symbol (str ''B'')])
   \<and> \<not> outer_parenthesized (formula (And [Symbol (str ''A''), Symbol (str ''B'')]))
   \<and> formula (Or [And [Symbol (str ''A''), Symbol (str ''B'')]])
        = [Latin1 CHR ''A'', Latin1 CHR '' '', LogicalAnd, Latin1 CHR '' '', Latin1 CHR ''B'']
   \<and> formula (Or [And [Symbol (str ''A''), Symbol (str ''B'')]])
        \<noteq> str ''('' @ formula (And [Symbol (str ''A''), Symbol (str ''B'')]) @ str '')''"
  by (simp add: str_def parenthesize_def isalpha_def outer_parenthesized_def and_sep_def)

text \<open>
  C8 (amended). \<open>formula()\<close> puts U+00AC before the operand of \<open>Not\<close>, joins the operands of
  \<open>And\<close> with U+2227 between single spaces, those of \<open>Or\<close> with U+2228 between one space and
  two, and those of \<open>Implication\<close> with \<open>=>\<close> between spaces. An \<open>And\<close> or \<open>Or\<close> with exactly
  one child renders as that child. Every other operand is rendered through
  \<open>parenthesize\<close>, which leaves a string as it is when it is empty, purely alphabetic, or
  enclosed in an outer pair of parentheses with balanced parentheses inside, and wraps it in
  parentheses otherwise. \<open>And(Symbol("A"), Or(Symbol("B"), Symbol("C")))\<close> renders with the
  disjunction in parentheses.
\<close>

theorem formula_rendering:
  "formula (NotS e) = [Latin1 (CHR 0xAC)] @ parenthesize (formula e)
   \<and> formula (Implication a c) = parenthesize (formula a) @ str '' => '' @ parenthesize (formula c)
   \<and> formula (And [e]) = formula e
   \<and> formula (Or [e]) = formula e
   \<and> (length es \<noteq> 1 \<longrightarrow>
        formula (And es) =
          join [Latin1 CHR '' '', LogicalAnd, Latin1 CHR '' '']
            (map (\<lambda>e. parenthesize (formula e)) es))
   \<and> (length es \<noteq> 1 \<longrightarrow>
        formula (Or es) =
          join [Latin1 CHR '' '', LogicalOr, Latin1 CHR '' '', Latin1 CHR '' '']
            (map (\<lambda>e. parenthesize (formula e)) es))
   \<and> (parenthesize s = s) = (s = [] \<or> isalpha s \<or> outer_parenthesized s)
   \<and> (parenthesize s = str ''('' @ s @ str '')'')
        = (s \<noteq> [] \<and> \<not> isalpha s \<and> \<not> outer_parenthesized s)
   \<and> formula (And [Symbol (str ''A''), Or [Symbol (str ''B''), Symbol (str ''C'')]])
        = [Latin1 CHR ''A'', Latin1 CHR '' '', LogicalAnd, Latin1 CHR '' '', Latin1 CHR ''('',
           Latin1 CHR ''B'', Latin1 CHR '' '', LogicalOr, Latin1 CHR '' '', Latin1 CHR '' '',
           Latin1 CHR ''C'', Latin1 CHR '')'']"
proof -
  have "formula (And [Symbol (str ''A''), Or [Symbol (str ''B''), Symbol (str ''C'')]])
        = [Latin1 CHR ''A'', Latin1 CHR '' '', LogicalAnd, Latin1 CHR '' '', Latin1 CHR ''('',
           Latin1 CHR ''B'', Latin1 CHR '' '', LogicalOr, Latin1 CHR '' '', Latin1 CHR '' '',
           Latin1 CHR ''C'', Latin1 CHR '')'']"
    by (simp add: str_def parenthesize_def isalpha_def outer_parenthesized_def and_sep_def
        or_sep_def)
  moreover have "length es \<noteq> 1 \<longrightarrow>
        formula (And es) =
          join [Latin1 CHR '' '', LogicalAnd, Latin1 CHR '' '']
            (map (\<lambda>e. parenthesize (formula e)) es)"
    using formula_And_many[of es] by (simp add: and_sep_def)
  moreover have "length es \<noteq> 1 \<longrightarrow>
        formula (Or es) =
          join [Latin1 CHR '' '', LogicalOr, Latin1 CHR '' '', Latin1 CHR '' '']
            (map (\<lambda>e. parenthesize (formula e)) es)"
    using formula_Or_many[of es] by (simp add: or_sep_def)
  moreover have "formula (NotS e) = [Latin1 (CHR 0xAC)] @ parenthesize (formula e)"
    by (simp add: not_sign_def)
  moreover have "formula (Implication a c) =
      parenthesize (formula a) @ str '' => '' @ parenthesize (formula c)"
    by (simp add: implies_sep_def)
  ultimately show ?thesis
    using parenthesize_keeps[of s] parenthesize_wraps[of s] by simp
qed

theorem formula_rendering_witness:
  "length [Symbol (str ''A''), NotS (Symbol (str ''B''))] \<noteq> 1
   \<and> formula (And [Symbol (str ''A''), NotS (Symbol (str ''B''))])
       = [Latin1 CHR ''A'', Latin1 CHR '' '', LogicalAnd, Latin1 CHR '' '', Latin1 CHR ''('',
          Latin1 (CHR 0xAC), Latin1 CHR ''B'', Latin1 CHR '')'']
   \<and> formula (Implication (Symbol (str ''A'')) (Symbol (str ''B''))) = str ''A => B''"
  using formula_rendering[of "Symbol (str ''B'')" "Symbol (str ''A'')" "Symbol (str ''B'')"
      "[Symbol (str ''A''), NotS (Symbol (str ''B''))]" "str ''A''"]
  by (simp add: str_def parenthesize_def isalpha_def outer_parenthesized_def not_sign_def
      and_sep_def implies_sep_def)

text \<open>
  C10 (as stated, refuted). The claim has every name that is not empty and not purely
  alphabetic wrapped in parentheses. The name \<open>(A)\<close> is neither, and \<open>Not\<close> renders it
  without further parentheses.
\<close>

theorem parenthesized_name_not_wrapped:
  "str ''(A)'' \<noteq> []
   \<and> \<not> isalpha (str ''(A)'')
   \<and> formula (NotS (Symbol (str ''(A)''))) = [Latin1 (CHR 0xAC)] @ str ''(A)''
   \<and> formula (NotS (Symbol (str ''(A)''))) \<noteq> [Latin1 (CHR 0xAC)] @ str ''((A))''"
  by (simp add: str_def parenthesize_def isalpha_def outer_parenthesized_def not_sign_def
      balanced_def)

lemma single_child_name_not_wrapped:
  "formula (And [Symbol (str ''A1'')]) = str ''A1''"
  "formula (Or [Symbol (str ''A1'')]) = str ''A1''"
  by simp_all

lemma map_wrap_name:
  assumes "name \<noteq> []" "\<not> isalpha name" "\<not> outer_parenthesized name"
  shows "map (\<lambda>e. parenthesize (formula e)) es =
         map (\<lambda>e. if e = Symbol name then str ''('' @ name @ str '')''
                   else parenthesize (formula e)) es"
  using assms by (induction es) (auto simp: parenthesize_def)

text \<open>
  C10 (amended). A symbol whose name is not empty, not purely alphabetic and not already
  enclosed in an outer pair of parentheses with balanced parentheses inside is rendered
  with its name in parentheses inside every compound of which it is not the only child: as
  the operand of \<open>Not\<close>, as either operand of \<open>Implication\<close>, and at every position of an
  \<open>And\<close> or \<open>Or\<close> with other than one child; for example \<open>Not(Symbol("A1"))\<close> renders as
  U+00AC followed by \<open>(A1)\<close>.
\<close>

theorem non_alphabetic_name_wrapped:
  assumes "name \<noteq> []" and "\<not> isalpha name" and "\<not> outer_parenthesized name"
  shows "formula (NotS (Symbol name)) = [Latin1 (CHR 0xAC)] @ str ''('' @ name @ str '')''
   \<and> formula (Implication (Symbol name) c)
       = (str ''('' @ name @ str '')'') @ str '' => '' @ parenthesize (formula c)
   \<and> formula (Implication a (Symbol name))
       = parenthesize (formula a) @ str '' => '' @ (str ''('' @ name @ str '')'')
   \<and> (length es \<noteq> 1 \<longrightarrow>
        formula (And es) =
          join and_sep
            (map (\<lambda>e. if e = Symbol name then str ''('' @ name @ str '')''
                      else parenthesize (formula e)) es))
   \<and> (length es \<noteq> 1 \<longrightarrow>
        formula (Or es) =
          join or_sep
            (map (\<lambda>e. if e = Symbol name then str ''('' @ name @ str '')''
                      else parenthesize (formula e)) es))"
proof -
  have "parenthesize name = str ''('' @ name @ str '')''"
    using assms by (simp add: parenthesize_def)
  then show ?thesis
    using formula_And_many[of es] formula_Or_many[of es] map_wrap_name[OF assms, of es]
    by (simp add: not_sign_def implies_sep_def)
qed

theorem non_alphabetic_name_wrapped_witness:
  "str ''A1'' \<noteq> [] \<and> \<not> isalpha (str ''A1'') \<and> \<not> outer_parenthesized (str ''A1'')
   \<and> formula (NotS (Symbol (str ''A1''))) = [Latin1 (CHR 0xAC)] @ str ''(A1)''
   \<and> length [Symbol (str ''B''), Symbol (str ''A1''), Symbol (str ''A1'')] \<noteq> 1
   \<and> formula (And [Symbol (str ''B''), Symbol (str ''A1''), Symbol (str ''A1'')])
       = str ''B'' @ and_sep @ str ''(A1)'' @ and_sep @ str ''(A1)''
   \<and> str ''X_2'' \<noteq> [] \<and> \<not> isalpha (str ''X_2'') \<and> \<not> outer_parenthesized (str ''X_2'')
   \<and> formula (NotS (Symbol (str ''X_2''))) = [Latin1 (CHR 0xAC)] @ str ''(X_2)''
   \<and> length [Symbol (str ''B''), Symbol (str ''X_2'')] \<noteq> 1
   \<and> formula (Or [Symbol (str ''B''), Symbol (str ''X_2'')]) = str ''B'' @ or_sep @ str ''(X_2)''"
proof -
  let ?w = "\<lambda>name e. if e = Symbol name then str ''('' @ name @ str '')''
                      else parenthesize (formula e)"
  let ?es1 = "[Symbol (str ''B''), Symbol (str ''A1''), Symbol (str ''A1'')]"
  let ?es2 = "[Symbol (str ''B''), Symbol (str ''X_2'')]"
  have 1: "str ''A1'' \<noteq> []" "\<not> isalpha (str ''A1'')" "\<not> outer_parenthesized (str ''A1'')"
    by (simp_all add: str_def isalpha_def outer_parenthesized_def)
  have 2: "str ''X_2'' \<noteq> []" "\<not> isalpha (str ''X_2'')" "\<not> outer_parenthesized (str ''X_2'')"
    by (simp_all add: str_def isalpha_def outer_parenthesized_def)
  have l1: "length ?es1 \<noteq> 1" and l2: "length ?es2 \<noteq> 1" by simp_all
  have n1: "formula (NotS (Symbol (str ''A1''))) = [Latin1 (CHR 0xAC)] @ str ''('' @ str ''A1'' @ str '')''"
    and a1: "formula (And ?es1) = join and_sep (map (?w (str ''A1'')) ?es1)"
    using non_alphabetic_name_wrapped[OF 1, of "Symbol []" "Symbol []" ?es1] l1 by blast+
  have n2: "formula (NotS (Symbol (str ''X_2''))) = [Latin1 (CHR 0xAC)] @ str ''('' @ str ''X_2'' @ str '')''"
    and o2: "formula (Or ?es2) = join or_sep (map (?w (str ''X_2'')) ?es2)"
    using non_alphabetic_name_wrapped[OF 2, of "Symbol []" "Symbol []" ?es2] l2 by blast+
  have r1: "join and_sep (map (?w (str ''A1'')) ?es1)
            = str ''B'' @ and_sep @ str ''(A1)'' @ and_sep @ str ''(A1)''"
    by (simp add: parenthesize_def isalpha_def str_def)
  have r2: "join or_sep (map (?w (str ''X_2'')) ?es2) = str ''B'' @ or_sep @ str ''(X_2)''"
    by (simp add: parenthesize_def isalpha_def str_def)
  have s1: "str ''('' @ str ''A1'' @ str '')'' = str ''(A1)''"
    and s2: "str ''('' @ str ''X_2'' @ str '')'' = str ''(X_2)''"
    by (simp_all add: str_def)
  show ?thesis
    using 1 2 l1 l2 n1[unfolded s1] n2[unfolded s2] a1[unfolded r1] o2[unfolded r2]
    by blast
qed

end
